theory Spec2Isabelle
  imports Main "HOL-Library.AList"
begin

section \<open>Values, enumerations and configuration\<close>

text \<open>
  JavaScript values as far as the gateway inspects them. \<open>JObject\<close> stands for every
  non-null object (its own enumerable properties, in order); the other constructors are
  the primitives.
\<close>

datatype jsval =
    JUndefined
  | JNull
  | JBool bool
  | JNum int
  | JStr string
  | JObject "(string \<times> jsval) list"

datatype js_error = TypeError string | SyntaxError string | ThrownError string

text \<open>
  Modelled from the spec: \<open>enums.ts\<close> is not among the sources. The message kinds are the
  closed enumeration of the data model (control kinds OPEN, ERROR, ID-TAKEN and the routing
  kinds), the error reasons are the three admission errors an ERROR message carries.
\<close>

datatype MessageType =
  OPEN | LEAVE | CANDIDATE | OFFER | ANSWER | EXPIRE | HEARTBEAT | ID_TAKEN | ERROR

datatype Errors = INVALID_WS_PARAMETERS | INVALID_KEY | CONNECTION_LIMIT_EXCEED

text \<open>
  Modelled from the spec: \<open>config/index.ts\<close> is not among the sources. These are the
  configuration inputs the signalling core consumes; the numeric ones are integers.
\<close>

record IConfig =
  path :: string
  key :: string
  concurrent_limit :: int
  alive_timeout :: int
  server_type :: string

section \<open>Sockets, clients and the realm\<close>

text \<open>
  A transport object is known by its identity: \<open>===\<close> on two handles is equality of
  the constructor and the number. \<open>WebSocket\<close> is an object of the \<open>ws\<close> library,
  \<open>Socket\<close> one of socket.io.
\<close>

datatype socket_ref = WebSocket nat | Socket nat

text \<open>
  A socket.io connection as \<open>_onSocketConnection\<close> receives it: the object itself,
  its \<open>id\<close> property and the query of its handshake. The handshake parameters are
  strings, as the signature of \<open>_registerClient\<close> declares them.
\<close>

record IOSocket =
  socket_obj :: nat
  socket_id :: string
  handshake_query :: "string \<rightharpoonup> string"

type_synonym cref = nat

text \<open>
  Modelled from the spec: \<open>models/client.ts\<close> is not among the sources. An identity
  record has an id, a token, a nullable transport handle and a last-seen timestamp; the
  fields are named after the getters the code calls. Client objects are shared between
  the realm, the listeners of a socket and the callbacks, so they live in a store and are
  referred to by address.
\<close>

record Client =
  getId :: string
  getToken :: string
  getSocket :: "socket_ref option"
  getLastPing :: int

text \<open>
  Modelled from the spec: \<open>models/realm.ts\<close> is not among the sources. The realm is
  the in-memory registry: a table from ids to identity records (an id maps to at most one
  record, and the ids are enumerated in insertion order) and a table of pending queues of
  (message, enqueue time) pairs.
\<close>

record Realm =
  clients :: "(string \<times> cref) list"
  messageQueues :: "(string \<times> (jsval \<times> int) list) list"

datatype msg_text = ErrorText Errors | Literal string

record ServerMessage =
  mtype :: MessageType
  msg :: "msg_text option"

datatype event =
    EvConnection cref
  | EvMessage cref jsval
  | EvClose cref
  | EvError js_error

datatype app_callback = AppEmit string

text \<open>
  What the code does to the outside, in order: \<open>socket.emit("message", m)\<close> and
  \<open>socket.disconnect()\<close> on a socket.io socket, \<open>close()\<close> on a WebSocket, an
  event emitted by the gateway, and a call of the sweeper's \<open>onClose\<close> callback.
\<close>

datatype effect =
    SocketEmit nat ServerMessage
  | SocketDisconnect nat
  | WebSocketClose nat
  | Emitted event
  | Invoke app_callback cref

record World =
  heap :: "cref \<Rightarrow> Client"
  next_client :: cref
  realm :: Realm
  listeners :: "(nat \<times> cref) list"
  error_listeners :: nat
  trace :: "effect list"

definition setSocket :: "cref \<Rightarrow> socket_ref option \<Rightarrow> World \<Rightarrow> World" where
  "setSocket c s w = w\<lparr>heap := (heap w)(c := (heap w c)\<lparr>getSocket := s\<rparr>)\<rparr>"

text \<open>Modelled from the spec: \<open>allIds\<close>, a snapshot of the registered ids.\<close>

definition getClientsIds :: "Realm \<Rightarrow> string list" where
  "getClientsIds r = map fst (clients r)"

text \<open>Modelled from the spec: \<open>lookup\<close>, the record of an id or absent.\<close>

definition getClientById :: "Realm \<Rightarrow> string \<Rightarrow> cref option" where
  "getClientById r i = map_of (clients r) i"

text \<open>Modelled from the spec: the creation of the identity record of an id.\<close>

definition setClient :: "cref \<Rightarrow> string \<Rightarrow> Realm \<Rightarrow> Realm" where
  "setClient c i r = r\<lparr>clients := AList.update i c (clients r)\<rparr>"

text \<open>Modelled from the spec: the pending queue of an id is discarded.\<close>

definition clearMessageQueue :: "string \<Rightarrow> Realm \<Rightarrow> Realm" where
  "clearMessageQueue i r = r\<lparr>messageQueues := AList.delete i (messageQueues r)\<rparr>"

text \<open>
  Modelled from the spec: \<open>remove\<close> detaches and discards the transport handle of the
  record (without closing it) and discards the identity record and its queue.
\<close>

definition removeClientById :: "string \<Rightarrow> World \<Rightarrow> World" where
  "removeClientById i w =
     (let w1 = (case getClientById (realm w) i of
                  None \<Rightarrow> w
                | Some c \<Rightarrow> setSocket c None w)
      in w1\<lparr>realm := \<lparr>clients = AList.delete i (clients (realm w1)),
                      messageQueues = AList.delete i (messageQueues (realm w1))\<rparr>\<rparr>)"

text \<open>
  Modelled from the spec: a new identity record has the given id and token, no transport
  handle, and the time of its creation as last-seen timestamp.
\<close>

definition new_Client :: "string \<Rightarrow> string \<Rightarrow> int \<Rightarrow> Client" where
  "new_Client i t now = \<lparr>getId = i, getToken = t, getSocket = None, getLastPing = now\<rparr>"

section \<open>SocketIOServer\<close>

definition emit :: "event \<Rightarrow> World \<Rightarrow> World" where
  "emit e w = w\<lparr>trace := trace w @ [Emitted e]\<rparr>"

definition sendErrorAndClose :: "IOSocket \<Rightarrow> Errors \<Rightarrow> World \<Rightarrow> World" where
  "sendErrorAndClose socket m w =
     w\<lparr>trace := trace w @
        [SocketEmit (socket_obj socket) \<lparr>mtype = ERROR, msg = Some (ErrorText m)\<rparr>,
         SocketDisconnect (socket_obj socket)]\<rparr>"

text \<open>
  \<open>_configureSocket\<close>: the handle is attached to the client, the two listeners are
  installed on the socket (both closures capture this socket and this client object), and
  \<open>connection\<close> is emitted.
\<close>

definition configureSocket :: "IOSocket \<Rightarrow> cref \<Rightarrow> World \<Rightarrow> World" where
  "configureSocket socket client w =
     (let w1 = setSocket client (Some (Socket (socket_obj socket))) w;
          w2 = w1\<lparr>listeners := listeners w1 @ [(socket_obj socket, client)]\<rparr>
      in emit (EvConnection client) w2)"

definition registerClient :: "IConfig \<Rightarrow> IOSocket \<Rightarrow> string \<Rightarrow> string \<Rightarrow> int \<Rightarrow> World \<Rightarrow> World" where
  "registerClient config socket i token now w =
     (let clientsCount = int (length (getClientsIds (realm w)))
      in if clientsCount \<ge> concurrent_limit config
         then sendErrorAndClose socket CONNECTION_LIMIT_EXCEED w
         else
           (let newClient = next_client w;
                w1 = w\<lparr>heap := (heap w)(newClient := new_Client i token now),
                       next_client := Suc newClient\<rparr>;
                w2 = w1\<lparr>realm := setClient newClient i (realm w1)\<rparr>;
                w3 = w2\<lparr>trace := trace w2 @
                       [SocketEmit (socket_obj socket) \<lparr>mtype = OPEN, msg = None\<rparr>]\<rparr>
            in configureSocket socket newClient w3))"

text \<open>
  \<open>_onSocketConnection\<close>. The id is the socket's own \<open>id\<close>; token and key are read
  from the handshake query. \<open>!v\<close> holds of a value that is absent (\<open>undefined\<close>)
  or the empty string. Every connection also adds an \<open>error\<close> listener to the server.
\<close>

definition onSocketConnection :: "IConfig \<Rightarrow> IOSocket \<Rightarrow> int \<Rightarrow> World \<Rightarrow> World" where
  "onSocketConnection config socket now w =
     (let w0 = w\<lparr>error_listeners := Suc (error_listeners w)\<rparr>;
          i = socket_id socket
      in case (handshake_query socket ''token'', handshake_query socket ''key'') of
           (Some token, Some k) \<Rightarrow>
             if i = [] \<or> token = [] \<or> k = []
             then sendErrorAndClose socket INVALID_WS_PARAMETERS w0
             else if k \<noteq> key config
             then sendErrorAndClose socket INVALID_KEY w0
             else
               (case getClientById (realm w0) i of
                  Some client \<Rightarrow>
                    if token \<noteq> getToken (heap w0 client)
                    then w0\<lparr>trace := trace w0 @
                           [SocketEmit (socket_obj socket)
                              \<lparr>mtype = ID_TAKEN, msg = Some (Literal ''ID is taken'')\<rparr>,
                            SocketDisconnect (socket_obj socket)]\<rparr>
                    else configureSocket socket client w0
                | None \<Rightarrow> registerClient config socket i token now w0)
         | _ \<Rightarrow> sendErrorAndClose socket INVALID_WS_PARAMETERS w0)"

text \<open>The listener of \<open>disconnect\<close> that \<open>_configureSocket\<close> installs on a socket.\<close>

definition disconnect_listener :: "nat \<Rightarrow> cref \<Rightarrow> World \<Rightarrow> World" where
  "disconnect_listener socket client w =
     (if getSocket (heap w client) = Some (Socket socket)
      then emit (EvClose client) (removeClientById (getId (heap w client)) w)
      else w)"

text \<open>
  \<open>message.src = id\<close> in a module (strict mode): creating a property on
  \<open>undefined\<close>, \<open>null\<close> or a primitive throws a TypeError; on an object the
  property is set, an existing one overwritten.
\<close>

definition set_src :: "jsval \<Rightarrow> string \<Rightarrow> js_error + jsval" where
  "set_src message i =
     (case message of
        JObject props \<Rightarrow> Inr (JObject (AList.update ''src'' (JStr i) props))
      | _ \<Rightarrow> Inl (TypeError ''Cannot set property src''))"

text \<open>
  The listener of \<open>message\<close>. \<open>JSON.parse\<close> belongs to the platform and is a
  parameter: it returns a value or throws.
\<close>

definition message_listener ::
  "(string \<Rightarrow> js_error + jsval) \<Rightarrow> cref \<Rightarrow> jsval \<Rightarrow> World \<Rightarrow> World" where
  "message_listener parse client data w =
     (case (case data of JStr s \<Rightarrow> parse s | _ \<Rightarrow> Inr data) of
        Inl e \<Rightarrow> emit (EvError e) w
      | Inr message \<Rightarrow>
          (case set_src message (getId (heap w client)) of
             Inl e \<Rightarrow> emit (EvError e) w
           | Inr message' \<Rightarrow> emit (EvMessage client message') w))"

text \<open>
  A transport-level event on a socket runs the listeners installed on that socket, in the
  order of their installation.
\<close>

definition socket_disconnect :: "nat \<Rightarrow> World \<Rightarrow> World" where
  "socket_disconnect s w =
     fold (\<lambda>(s', c) w'. if s' = s then disconnect_listener s c w' else w') (listeners w) w"

definition socket_message :: "(string \<Rightarrow> js_error + jsval) \<Rightarrow> nat \<Rightarrow> jsval \<Rightarrow> World \<Rightarrow> World" where
  "socket_message parse s data w =
     fold (\<lambda>(s', c) w'. if s' = s then message_listener parse c data w' else w') (listeners w) w"

section \<open>CheckBrokenConnections\<close>

definition DEFAULT_CHECK_INTERVAL :: int where
  "DEFAULT_CHECK_INTERVAL = 300"

text \<open>
  The timers of the event loop that are pending: handle and due time. \<open>setTimeout\<close>
  at time \<open>now\<close> with a delay adds one and returns its handle, \<open>clearTimeout\<close>
  removes one; a timer that fires is removed before its callback runs.
\<close>

record Timers =
  pending :: "(nat \<times> int) list"
  next_handle :: nat

definition setTimeout :: "int \<Rightarrow> int \<Rightarrow> Timers \<Rightarrow> nat \<times> Timers" where
  "setTimeout delay now T =
     (next_handle T,
      T\<lparr>pending := pending T @ [(next_handle T, now + delay)],
        next_handle := Suc (next_handle T)\<rparr>)"

definition clearTimeout :: "nat \<Rightarrow> Timers \<Rightarrow> Timers" where
  "clearTimeout h T = T\<lparr>pending := filter (\<lambda>(h', due). h' \<noteq> h) (pending T)\<rparr>"

record CheckBrokenConnections =
  checkInterval :: int
  timeoutId :: "nat option"
  sweeper_config :: IConfig
  onClose :: "app_callback option"

definition new_CheckBrokenConnections ::
  "IConfig \<Rightarrow> int option \<Rightarrow> app_callback option \<Rightarrow> CheckBrokenConnections" where
  "new_CheckBrokenConnections config interval cb =
     \<lparr>checkInterval = (case interval of None \<Rightarrow> DEFAULT_CHECK_INTERVAL | Some v \<Rightarrow> v),
      timeoutId = None,
      sweeper_config = config,
      onClose = cb\<rparr>"

text \<open>
  \<open>socket.disconnect()\<close> of socket.io on a connected socket: the library sends the
  disconnect packet and emits \<open>disconnect\<close> on the socket at once, so the listeners
  installed on the socket run inside the call. (In the handshake the socket has only just
  connected and \<open>_configureSocket\<close> has not been reached: no listener is installed on
  it yet, and \<open>disconnect()\<close> there runs none.)
\<close>

definition socket_io_disconnect :: "nat \<Rightarrow> World \<Rightarrow> World" where
  "socket_io_disconnect n w = socket_disconnect n (w\<lparr>trace := trace w @ [SocketDisconnect n]\<rparr>)"

text \<open>
  The \<open>try\<close> block of \<open>checkConnections\<close>: a WebSocket is closed with
  \<open>close()\<close>, a socket.io socket with \<open>disconnect()\<close>. The call belongs to the
  transport library and may throw, which \<open>raises\<close> tells for each handle.
\<close>

definition close_socket ::
  "(socket_ref \<Rightarrow> js_error option) \<Rightarrow> socket_ref option \<Rightarrow> World \<Rightarrow> js_error option \<times> World" where
  "close_socket raises socket w =
     (case socket of
        None \<Rightarrow> (None, w)
      | Some s \<Rightarrow>
          (case raises s of
             Some e \<Rightarrow> (Some e, w)
           | None \<Rightarrow>
               (case s of
                  WebSocket n \<Rightarrow> (None, w\<lparr>trace := trace w @ [WebSocketClose n]\<rparr>)
                | Socket n \<Rightarrow> (None, socket_io_disconnect n w))))"

text \<open>The \<open>finally\<close> block of \<open>checkConnections\<close>.\<close>

definition finally_block :: "CheckBrokenConnections \<Rightarrow> string \<Rightarrow> cref \<Rightarrow> World \<Rightarrow> World" where
  "finally_block sw clientId client w =
     (let w1 = w\<lparr>realm := clearMessageQueue clientId (realm w)\<rparr>;
          w2 = removeClientById clientId w1;
          w3 = setSocket client None w2
      in case onClose sw of
           None \<Rightarrow> w3
         | Some cb \<Rightarrow> w3\<lparr>trace := trace w3 @ [Invoke cb client]\<rparr>)"

text \<open>
  The \<open>for\<close> loop of \<open>checkConnections\<close> over the snapshot of ids. The result
  is the error that left the loop, if any, and the world as the loop left it: a
  \<open>try\<close> with \<open>finally\<close> and no \<open>catch\<close> runs the \<open>finally\<close> block
  and then throws the error on.
\<close>

fun checkConnections_loop ::
  "CheckBrokenConnections \<Rightarrow> (socket_ref \<Rightarrow> js_error option) \<Rightarrow> int \<Rightarrow> string list \<Rightarrow> World
     \<Rightarrow> js_error option \<times> World" where
  "checkConnections_loop sw raises now [] w = (None, w)"
| "checkConnections_loop sw raises now (clientId # ids) w =
     (case getClientById (realm w) clientId of
        None \<Rightarrow> checkConnections_loop sw raises now ids w
      | Some client \<Rightarrow>
          (let timeSinceLastPing = now - getLastPing (heap w client)
           in if timeSinceLastPing < alive_timeout (sweeper_config sw)
              then checkConnections_loop sw raises now ids w
              else
                (case close_socket raises (getSocket (heap w client)) w of
                   (Some e, w1) \<Rightarrow> (Some e, finally_block sw clientId client w1)
                 | (None, w1) \<Rightarrow>
                     checkConnections_loop sw raises now ids
                       (finally_block sw clientId client w1))))"

definition checkConnections ::
  "CheckBrokenConnections \<Rightarrow> (socket_ref \<Rightarrow> js_error option) \<Rightarrow> int \<Rightarrow> World
     \<Rightarrow> js_error option \<times> World" where
  "checkConnections sw raises now w =
     checkConnections_loop sw raises now (getClientsIds (realm w)) w"

text \<open>\<open>start\<close> and \<open>stop\<close>, called at time \<open>now\<close>.\<close>

definition start :: "int \<Rightarrow> CheckBrokenConnections \<times> Timers \<Rightarrow> CheckBrokenConnections \<times> Timers" where
  "start now = (\<lambda>(sw, T).
     (let T1 = (case timeoutId sw of None \<Rightarrow> T | Some h \<Rightarrow> clearTimeout h T);
          (h', T2) = setTimeout (checkInterval sw) now T1
      in (sw\<lparr>timeoutId := Some h'\<rparr>, T2)))"

definition stop :: "CheckBrokenConnections \<times> Timers \<Rightarrow> CheckBrokenConnections \<times> Timers" where
  "stop = (\<lambda>(sw, T).
     (case timeoutId sw of
        None \<Rightarrow> (sw, T)
      | Some h \<Rightarrow> (sw\<lparr>timeoutId := None\<rparr>, clearTimeout h T)))"

text \<open>
  The callback that \<open>start\<close> hands to \<open>setTimeout\<close>. The pass begins at
  \<open>now\<close>; when it has returned, at time \<open>finished\<close>, the handle is reset and
  \<open>start\<close> is called. An error of the pass leaves the callback at once.
\<close>

definition timeout_callback ::
  "(socket_ref \<Rightarrow> js_error option) \<Rightarrow> int \<Rightarrow> int \<Rightarrow> CheckBrokenConnections \<times> Timers \<times> World
     \<Rightarrow> js_error option \<times> CheckBrokenConnections \<times> Timers \<times> World" where
  "timeout_callback raises now finished = (\<lambda>(sw, T, w).
     (case checkConnections sw raises now w of
        (Some e, w') \<Rightarrow> (Some e, sw, T, w')
      | (None, w') \<Rightarrow>
          (let (sw', T') = start finished (sw\<lparr>timeoutId := None\<rparr>, T)
           in (None, sw', T', w'))))"

section \<open>createInstance\<close>

datatype server_adapter = SocketIOServer | WebSocketServer

record Instance =
  config :: IConfig
  world :: World
  timers :: Timers
  checkBrokenConnections :: "CheckBrokenConnections option"
  serverInstance :: server_adapter
  messagesExpire_started :: bool

definition new_Realm :: Realm where
  "new_Realm = \<lparr>clients = [], messageQueues = []\<rparr>"

definition new_World :: World where
  "new_World =
     \<lparr>heap = (\<lambda>c. new_Client [] [] 0), next_client = 0, realm = new_Realm,
      listeners = [], error_listeners = 0, trace = []\<rparr>"

text \<open>
  \<open>createInstance\<close>, called at time \<open>now\<close>: the realm is created, the sweeper
  is constructed unless the server type is \<open>socketio\<close>, the adapter of the server
  type is created, the expiration of messages is started, and the sweeper is started
  under the same condition that constructed it (so it is defined where \<open>start\<close> is
  called). The listeners that \<open>createInstance\<close> attaches to the events of the
  adapter pass them on to the application and to the message handler, which is not among
  the sources; the model stops at the events the adapter emits.
\<close>

definition createInstance :: "IConfig \<Rightarrow> int \<Rightarrow> Instance" where
  "createInstance options now =
     (let sweeper =
            (if server_type options \<noteq> ''socketio''
             then Some (new_CheckBrokenConnections options None (Some (AppEmit ''disconnect'')))
             else None);
          inst = \<lparr>config = options,
                  world = new_World,
                  timers = \<lparr>pending = [], next_handle = 0\<rparr>,
                  checkBrokenConnections = sweeper,
                  serverInstance =
                    (if server_type options = ''socketio'' then SocketIOServer
                     else WebSocketServer),
                  messagesExpire_started = True\<rparr>
      in if server_type options \<noteq> ''socketio''
         then (case checkBrokenConnections inst of
                 None \<Rightarrow> inst
               | Some sw \<Rightarrow>
                   (let (sw', T') = start now (sw, timers inst)
                    in inst\<lparr>checkBrokenConnections := Some sw', timers := T'\<rparr>))
         else inst)"

text \<open>
  What happens to a running instance: a socket.io connection arrives, a socket
  disconnects or delivers a data frame (the gateway is the socket.io adapter, the one
  among the sources), or a pending timer fires (with the behaviour of
  the close calls during that pass, the time at which the pass begins and the time at
  which it has returned). The timers of the model are those of the sweeper.
\<close>

datatype instance_event =
    Connects IOSocket int
  | Disconnects nat
  | Delivers nat jsval
  | TimerFires nat "socket_ref \<Rightarrow> js_error option" int int

definition instance_step ::
  "(string \<Rightarrow> js_error + jsval) \<Rightarrow> instance_event \<Rightarrow> Instance \<Rightarrow> Instance" where
  "instance_step parse ev inst =
     (case ev of
        Connects socket now \<Rightarrow>
          inst\<lparr>world := onSocketConnection (config inst) socket now (world inst)\<rparr>
      | Disconnects s \<Rightarrow> inst\<lparr>world := socket_disconnect s (world inst)\<rparr>
      | Delivers s data \<Rightarrow> inst\<lparr>world := socket_message parse s data (world inst)\<rparr>
      | TimerFires h raises now finished \<Rightarrow>
          (if h \<in> fst ` set (pending (timers inst))
           then
             (case checkBrokenConnections inst of
                None \<Rightarrow> inst\<lparr>timers := clearTimeout h (timers inst)\<rparr>
              | Some sw \<Rightarrow>
                  (case timeout_callback raises now finished
                          (sw, clearTimeout h (timers inst), world inst) of
                     (r, sw', T', w') \<Rightarrow>
                       inst\<lparr>checkBrokenConnections := Some sw', timers := T', world := w'\<rparr>))
           else inst))"

fun instance_run ::
  "(string \<Rightarrow> js_error + jsval) \<Rightarrow> instance_event list \<Rightarrow> Instance \<Rightarrow> Instance" where
  "instance_run parse [] inst = inst"
| "instance_run parse (ev # evs) inst = instance_run parse evs (instance_step parse ev inst)"

section \<open>Notions of the sweep\<close>




text \<open>
  At most one timer is pending, and a pending timer is the one whose handle the sweeper
  of the instance holds.
\<close>

definition one_timer :: "Instance \<Rightarrow> bool" where
  "one_timer inst =
     (length (pending (timers inst)) \<le> 1 \<and>
      (\<forall>h \<in> fst ` set (pending (timers inst)).
         \<exists>sw. checkBrokenConnections inst = Some sw \<and> timeoutId sw = Some h))"

section \<open>Example inputs\<close>

text \<open>
  A configuration with room for one identity, sockets that present the right key, the
  world after \<open>alice\<close> has connected on socket 1 with token \<open>t1\<close>, and a world
  with two identities on WebSockets, last seen at times 0 and 90000.
\<close>

definition example_config :: IConfig where
  "example_config =
     \<lparr>path = ''/'', key = ''peerjs'', concurrent_limit = 1, alive_timeout = 60000,
      server_type = ''socketio''\<rparr>"

definition example_socket :: "nat \<Rightarrow> string \<Rightarrow> string \<Rightarrow> IOSocket" where
  "example_socket n i t =
     \<lparr>socket_obj = n, socket_id = i,
      handshake_query = [''token'' \<mapsto> t, ''key'' \<mapsto> ''peerjs'']\<rparr>"

definition example_world :: World where
  "example_world =
     \<lparr>heap = (\<lambda>c. new_Client [] [] 0)
        (0 := \<lparr>getId = ''alice'', getToken = ''t1'', getSocket = Some (Socket 1),
                getLastPing = 5\<rparr>),
      next_client = 1,
      realm = \<lparr>clients = [(''alice'', 0)], messageQueues = []\<rparr>,
      listeners = [(1, 0)],
      error_listeners = 1,
      trace = []\<rparr>"

definition example_sweeper :: CheckBrokenConnections where
  "example_sweeper =
     new_CheckBrokenConnections example_config None (Some (AppEmit ''disconnect''))"

definition example_sweep_world :: World where
  "example_sweep_world =
     \<lparr>heap = (\<lambda>c. new_Client [] [] 0)
        (0 := \<lparr>getId = ''a'', getToken = ''ta'', getSocket = Some (WebSocket 1),
                getLastPing = 0\<rparr>,
         1 := \<lparr>getId = ''b'', getToken = ''tb'', getSocket = Some (WebSocket 2),
                getLastPing = 90000\<rparr>),
      next_client = 2,
      realm = \<lparr>clients = [(''a'', 0), (''b'', 1)],
                messageQueues = [(''a'', [(JNull, 0)])]\<rparr>,
      listeners = [],
      error_listeners = 0,
      trace = []\<rparr>"

text \<open>
  A world with three identities: \<open>a\<close> on a WebSocket and last seen at 0, \<open>b\<close> on
  a WebSocket and last seen at 90000, \<open>c\<close> on a socket.io socket with the gateway's
  listener installed and last seen at 10.
\<close>

definition example_mixed_world :: World where
  "example_mixed_world =
     \<lparr>heap = (\<lambda>c. new_Client [] [] 0)
        (0 := \<lparr>getId = ''a'', getToken = ''ta'', getSocket = Some (WebSocket 4),
                getLastPing = 0\<rparr>,
         1 := \<lparr>getId = ''b'', getToken = ''tb'', getSocket = Some (WebSocket 5),
                getLastPing = 90000\<rparr>,
         2 := \<lparr>getId = ''c'', getToken = ''tc'', getSocket = Some (Socket 6),
                getLastPing = 10\<rparr>),
      next_client = 3,
      realm = \<lparr>clients = [(''a'', 0), (''b'', 1), (''c'', 2)],
                messageQueues = [(''a'', [(JNull, 0)]), (''b'', [(JNull, 1)])]\<rparr>,
      listeners = [(6, 2)],
      error_listeners = 1,
      trace = []\<rparr>"

definition example_raises :: "socket_ref \<Rightarrow> js_error option" where
  "example_raises s = (if s = WebSocket 1 then Some (ThrownError ''close failed'') else None)"

section \<open>Facts about the example inputs\<close>

lemmas example_defs =
  example_config_def example_socket_def example_world_def example_sweeper_def
  example_sweep_world_def example_mixed_world_def example_raises_def
  new_CheckBrokenConnections_def new_Client_def

section \<open>The handshake\<close>

lemma onSocketConnection_admitted:
  assumes "socket_id socket \<noteq> []"
    and "handshake_query socket ''token'' = Some token" and "token \<noteq> []"
    and "handshake_query socket ''key'' = Some (key cfg)" and "key cfg \<noteq> []"
  shows "onSocketConnection cfg socket now w =
     (let w0 = w\<lparr>error_listeners := Suc (error_listeners w)\<rparr>
      in case getClientById (realm w) (socket_id socket) of
           Some client \<Rightarrow>
             if token \<noteq> getToken (heap w client)
             then w0\<lparr>trace := trace w @
                    [SocketEmit (socket_obj socket)
                       \<lparr>mtype = ID_TAKEN, msg = Some (Literal ''ID is taken'')\<rparr>,
                     SocketDisconnect (socket_obj socket)]\<rparr>
             else configureSocket socket client w0
         | None \<Rightarrow> registerClient cfg socket (socket_id socket) token now w0)"
  using assms by (simp add: onSocketConnection_def Let_def split: option.splits)

text \<open>
  C2, as the claim states it, fails: the id is not extracted from the handshake
  parameters. A handshake whose query carries a token and the right key and no \<open>id\<close>
  at all, on a socket whose own id is \<open>abc\<close>, is not rejected: it gets OPEN and is
  registered under \<open>abc\<close>.
\<close>

theorem handshake_without_id_admitted:
  "handshake_query (example_socket 1 ''abc'' ''t1'') ''id'' = None
   \<and> getClientsIds
        (realm (onSocketConnection example_config (example_socket 1 ''abc'' ''t1'') 5 new_World))
       = [''abc'']
   \<and> trace (onSocketConnection example_config (example_socket 1 ''abc'' ''t1'') 5 new_World)
       = [SocketEmit 1 \<lparr>mtype = OPEN, msg = None\<rparr>, Emitted (EvConnection 0)]"
  by (simp add: example_defs onSocketConnection_def registerClient_def configureSocket_def
      new_World_def new_Realm_def getClientById_def getClientsIds_def setClient_def
      setSocket_def emit_def Let_def)

text \<open>
  C2, amended: for every new connection the gateway takes the id from the socket's own
  \<open>id\<close> (an \<open>id\<close> entry of the handshake query is not read) and the token and the
  key from the handshake query; if the socket id is empty, or the token or the key is
  absent or empty, the socket gets an ERROR message with INVALID_WS_PARAMETERS and is
  disconnected, and the registry is as it was: no record, no client object and no
  listener is created.
\<close>

theorem handshake_invalid_parameters:
  "onSocketConnection cfg (socket\<lparr>handshake_query := (handshake_query socket)(''id'' := v)\<rparr>) now w
     = onSocketConnection cfg socket now w
   \<and> (socket_id socket = [] \<or> handshake_query socket ''token'' \<in> {None, Some []}
        \<or> handshake_query socket ''key'' \<in> {None, Some []} \<longrightarrow>
      trace (onSocketConnection cfg socket now w) =
        trace w @
          [SocketEmit (socket_obj socket)
             \<lparr>mtype = ERROR, msg = Some (ErrorText INVALID_WS_PARAMETERS)\<rparr>,
           SocketDisconnect (socket_obj socket)]
      \<and> realm (onSocketConnection cfg socket now w) = realm w
      \<and> heap (onSocketConnection cfg socket now w) = heap w
      \<and> next_client (onSocketConnection cfg socket now w) = next_client w
      \<and> listeners (onSocketConnection cfg socket now w) = listeners w)"
proof -
  have "onSocketConnection cfg socket now w =
          sendErrorAndClose socket INVALID_WS_PARAMETERS
            (w\<lparr>error_listeners := Suc (error_listeners w)\<rparr>)"
    if "socket_id socket = [] \<or> handshake_query socket ''token'' \<in> {None, Some []}
        \<or> handshake_query socket ''key'' \<in> {None, Some []}"
    using that by (auto simp: onSocketConnection_def Let_def split: option.splits)
  moreover have
    "onSocketConnection cfg (socket\<lparr>handshake_query := (handshake_query socket)(''id'' := v)\<rparr>) now w
       = onSocketConnection cfg socket now w"
    by (simp add: onSocketConnection_def sendErrorAndClose_def registerClient_def
        configureSocket_def Let_def split: option.splits)
  ultimately show ?thesis
    by (simp add: sendErrorAndClose_def)
qed

theorem handshake_invalid_parameters_witness:
  "handshake_query \<lparr>socket_obj = 3, socket_id = ''carol'',
       handshake_query = [''key'' \<mapsto> ''peerjs'']\<rparr> ''token'' \<in> {None, Some []}
   \<and> trace (onSocketConnection example_config
         \<lparr>socket_obj = 3, socket_id = ''carol'', handshake_query = [''key'' \<mapsto> ''peerjs'']\<rparr>
         9 example_world)
       = [SocketEmit 3 \<lparr>mtype = ERROR, msg = Some (ErrorText INVALID_WS_PARAMETERS)\<rparr>,
          SocketDisconnect 3]
   \<and> realm (onSocketConnection example_config
         \<lparr>socket_obj = 3, socket_id = ''carol'', handshake_query = [''key'' \<mapsto> ''peerjs'']\<rparr>
         9 example_world)
       = \<lparr>clients = [(''alice'', 0)], messageQueues = []\<rparr>"
  using handshake_invalid_parameters
    [of example_config
        "\<lparr>socket_obj = 3, socket_id = ''carol'', handshake_query = [''key'' \<mapsto> ''peerjs'']\<rparr>"
        None 9 example_world]
  by (simp add: example_world_def)





section \<open>The listeners of a socket\<close>

text \<open>
  C7: the \<open>disconnect\<close> listener of a socket removes the record of its client from
  the realm and emits \<open>close\<close> when the socket attached to the client is this very
  socket, and only then: otherwise it leaves the world as it is. In particular after a
  reconnect has attached another socket to the client the listener of the old socket
  changes nothing, and a disconnect event on a socket none of whose listeners still owns
  its client changes nothing.
\<close>

theorem disconnect_listener_handle_guard:
  "(getSocket (heap w client) = Some (Socket socket) \<longrightarrow>
      getClientById (realm (disconnect_listener socket client w)) (getId (heap w client)) = None
      \<and> trace (disconnect_listener socket client w) = trace w @ [Emitted (EvClose client)])
   \<and> (getSocket (heap w client) \<noteq> Some (Socket socket) \<longrightarrow>
      disconnect_listener socket client w = w)
   \<and> (socket_obj socket' \<noteq> socket \<longrightarrow>
      disconnect_listener socket client (configureSocket socket' client w)
        = configureSocket socket' client w)
   \<and> ((\<forall>(s, c) \<in> set (listeners w). s = socket \<longrightarrow> getSocket (heap w c) \<noteq> Some (Socket socket)) \<longrightarrow>
      socket_disconnect socket w = w)"
proof -
  have fold_id:
    "fold (\<lambda>(s', c) w'. if s' = socket then disconnect_listener socket c w' else w') ls w = w"
    if "\<forall>(s, c) \<in> set ls. s = socket \<longrightarrow> getSocket (heap w c) \<noteq> Some (Socket socket)" for ls
    using that by (induction ls) (auto simp: disconnect_listener_def)
  show ?thesis
    using fold_id
    by (auto simp: disconnect_listener_def removeClientById_def emit_def getClientById_def
        setSocket_def configureSocket_def socket_disconnect_def AList.delete_conv' Let_def
        split: option.splits)
qed

theorem disconnect_listener_handle_guard_witness:
  "getSocket (heap example_world 0) = Some (Socket 1)
   \<and> getClientById (realm (disconnect_listener 1 0 example_world)) ''alice'' = None
   \<and> trace (disconnect_listener 1 0 example_world) = [Emitted (EvClose 0)]
   \<and> getSocket (heap example_world 0) \<noteq> Some (Socket 4)
   \<and> disconnect_listener 4 0 example_world = example_world
   \<and> socket_obj (example_socket 2 ''alice'' ''t1'') \<noteq> 1
   \<and> disconnect_listener 1 0 (configureSocket (example_socket 2 ''alice'' ''t1'') 0 example_world)
       = configureSocket (example_socket 2 ''alice'' ''t1'') 0 example_world
   \<and> listeners (configureSocket (example_socket 2 ''alice'' ''t1'') 0 example_world)
       = [(1, 0), (2, 0)]
   \<and> socket_disconnect 1 (configureSocket (example_socket 2 ''alice'' ''t1'') 0 example_world)
       = configureSocket (example_socket 2 ''alice'' ''t1'') 0 example_world"
proof -
  let ?w2 = "configureSocket (example_socket 2 ''alice'' ''t1'') 0 example_world"
  have a: "getSocket (heap example_world 0) = Some (Socket 1)"
    and b: "getSocket (heap example_world 0) \<noteq> Some (Socket 4)"
    and c: "socket_obj (example_socket 2 ''alice'' ''t1'') \<noteq> 1"
    and i: "getId (heap example_world 0) = ''alice''"
    and t: "trace example_world = []"
    by (simp_all add: example_defs)
  have l: "listeners ?w2 = [(1, 0), (2, 0)]"
    and d: "\<forall>(s, c) \<in> set (listeners ?w2). s = 1 \<longrightarrow> getSocket (heap ?w2 c) \<noteq> Some (Socket 1)"
    by (simp_all add: example_defs configureSocket_def setSocket_def emit_def)
  note th1 = disconnect_listener_handle_guard [of example_world 0 1 "example_socket 2 ''alice'' ''t1''"]
  note th2 = disconnect_listener_handle_guard [of example_world 0 4 "example_socket 2 ''alice'' ''t1''"]
  note th3 = disconnect_listener_handle_guard [of ?w2 0 1 "example_socket 2 ''alice'' ''t1''"]
  from th1 a i t have
    "getClientById (realm (disconnect_listener 1 0 example_world)) ''alice'' = None"
    "trace (disconnect_listener 1 0 example_world) = [Emitted (EvClose 0)]"
    by simp_all
  moreover from th2 b have "disconnect_listener 4 0 example_world = example_world"
    by blast
  moreover from th1 c have "disconnect_listener 1 0 ?w2 = ?w2"
    by blast
  moreover from th3 d have "socket_disconnect 1 ?w2 = ?w2"
    by blast
  ultimately show ?thesis
    using a b c l by simp
qed

text \<open>
  C9: for a data frame that is an object, or a string that parses to an object, the
  listener emits \<open>message\<close> with the frame's properties and \<open>src\<close> set to the id of
  the connection's client, whatever \<open>src\<close> the frame declared. Whatever the frame is,
  every \<open>message\<close> event the listener emits carries this client and a message whose
  \<open>src\<close> is the client's id; the registry is not touched.
\<close>

theorem message_src_forced:
  "(data = JObject props \<or> (data = JStr s \<and> parse s = Inr (JObject props)) \<longrightarrow>
      message_listener parse client data w =
        emit (EvMessage client
                (JObject (AList.update ''src'' (JStr (getId (heap w client))) props))) w
      \<and> map_of (AList.update ''src'' (JStr (getId (heap w client))) props) ''src''
          = Some (JStr (getId (heap w client))))
   \<and> (\<forall>e \<in> set (drop (length (trace w)) (trace (message_listener parse client data w))).
        \<forall>c m. e = Emitted (EvMessage c m) \<longrightarrow>
          c = client \<and>
          (\<exists>ps. m = JObject ps \<and> map_of ps ''src'' = Some (JStr (getId (heap w client)))))
   \<and> heap (message_listener parse client data w) = heap w
   \<and> realm (message_listener parse client data w) = realm w"
  by (auto simp: message_listener_def set_src_def emit_def AList.update_conv'
      split: jsval.splits sum.splits)

theorem message_src_forced_witness:
  "message_listener (\<lambda>s. Inl (SyntaxError s)) 0
      (JObject [(''type'', JStr ''OFFER''), (''src'', JStr ''mallory''), (''dst'', JStr ''bob'')])
      example_world
    = emit (EvMessage 0
        (JObject [(''type'', JStr ''OFFER''), (''src'', JStr ''alice''), (''dst'', JStr ''bob'')]))
        example_world
   \<and> message_listener (\<lambda>s. Inr (JObject [(''type'', JStr ''HEARTBEAT'')])) 0
      (JStr ''{\"type\":\"HEARTBEAT\"}'') example_world
    = emit (EvMessage 0 (JObject [(''type'', JStr ''HEARTBEAT''), (''src'', JStr ''alice'')]))
        example_world
   \<and> set (drop (length (trace example_world))
        (trace (message_listener (\<lambda>s. Inl (SyntaxError s)) 0
           (JObject [(''type'', JStr ''OFFER''), (''src'', JStr ''mallory''), (''dst'', JStr ''bob'')])
           example_world)))
      = {Emitted (EvMessage 0
          (JObject [(''type'', JStr ''OFFER''), (''src'', JStr ''alice''), (''dst'', JStr ''bob'')]))}"
proof -
  have i: "getId (heap example_world 0) = ''alice''" and t: "trace example_world = []"
    by (simp_all add: example_defs)
  note th1 = message_src_forced
    [of "JObject [(''type'', JStr ''OFFER''), (''src'', JStr ''mallory''), (''dst'', JStr ''bob'')]"
        "[(''type'', JStr ''OFFER''), (''src'', JStr ''mallory''), (''dst'', JStr ''bob'')]"
        "[]" "\<lambda>s. Inl (SyntaxError s)" 0 example_world]
  note th2 = message_src_forced
    [of "JStr ''{\"type\":\"HEARTBEAT\"}''" "[(''type'', JStr ''HEARTBEAT'')]"
        "''{\"type\":\"HEARTBEAT\"}''" "\<lambda>s. Inr (JObject [(''type'', JStr ''HEARTBEAT'')])"
        0 example_world]
  from th1 have a: "message_listener (\<lambda>s. Inl (SyntaxError s)) 0
      (JObject [(''type'', JStr ''OFFER''), (''src'', JStr ''mallory''), (''dst'', JStr ''bob'')])
      example_world
    = emit (EvMessage 0
        (JObject [(''type'', JStr ''OFFER''), (''src'', JStr ''alice''), (''dst'', JStr ''bob'')]))
        example_world"
    by (simp add: i)
  from th2 have b: "message_listener (\<lambda>s. Inr (JObject [(''type'', JStr ''HEARTBEAT'')])) 0
      (JStr ''{\"type\":\"HEARTBEAT\"}'') example_world
    = emit (EvMessage 0 (JObject [(''type'', JStr ''HEARTBEAT''), (''src'', JStr ''alice'')]))
        example_world"
    by (simp add: i)
  show ?thesis
    unfolding a b by (simp add: emit_def t)
qed

section \<open>The liveness sweep\<close>

lemma checkConnections_loop_append:
  "checkConnections_loop sw raises now (xs @ ys) w =
     (case checkConnections_loop sw raises now xs w of
        (None, w') \<Rightarrow> checkConnections_loop sw raises now ys w'
      | (Some e, w') \<Rightarrow> (Some e, w'))"
  by (induction xs arbitrary: w) (auto simp: Let_def split: option.splits prod.splits)

lemma finally_block_realm:
  "realm (finally_block sw i c w) =
     \<lparr>clients = AList.delete i (clients (realm w)),
      messageQueues = AList.delete i (messageQueues (realm w))\<rparr>"
  by (simp add: finally_block_def removeClientById_def clearMessageQueue_def setSocket_def Let_def
      getClientById_def AList.delete_idem split: option.splits)

lemma finally_block_heap:
  "getClientById (realm w) i = Some c \<Longrightarrow>
   heap (finally_block sw i c w) = (heap w)(c := (heap w c)\<lparr>getSocket := None\<rparr>)"
  by (simp add: finally_block_def removeClientById_def clearMessageQueue_def setSocket_def Let_def
      getClientById_def split: option.splits)

lemma finally_block_trace:
  "trace (finally_block sw i c w) =
     trace w @ (case onClose sw of None \<Rightarrow> [] | Some cb \<Rightarrow> [Invoke cb c])"
  by (simp add: finally_block_def removeClientById_def clearMessageQueue_def setSocket_def Let_def
      split: option.splits)


text \<open>
  C1, as the claim states it, fails: the \<open>try\<close> has a \<open>finally\<close> and no
  \<open>catch\<close>, so an error of a close call is not swallowed. In a realm with the stale
  identities \<open>a\<close> and \<open>b\<close>, where closing the socket of \<open>a\<close> raises, the pass ends
  with that error after the cleanup of \<open>a\<close>: \<open>b\<close>, as stale as \<open>a\<close>, is still
  registered with its socket attached, and the callback was called for \<open>a\<close> only.
\<close>

theorem sweep_close_failure_aborts_pass:
  "fst (checkConnections example_sweeper example_raises 200000 example_sweep_world)
      = Some (ThrownError ''close failed'')
   \<and> getClientById (realm example_sweep_world) ''b'' = Some 1
   \<and> \<not> 200000 - getLastPing (heap example_sweep_world 1)
         < alive_timeout (sweeper_config example_sweeper)
   \<and> getClientById
        (realm (snd (checkConnections example_sweeper example_raises 200000 example_sweep_world)))
        ''b'' = Some 1
   \<and> getSocket
        (heap (snd (checkConnections example_sweeper example_raises 200000 example_sweep_world)) 1)
       = Some (WebSocket 2)
   \<and> trace (snd (checkConnections example_sweeper example_raises 200000 example_sweep_world))
       = [Invoke (AppEmit ''disconnect'') 0]"
  by (simp add: example_defs checkConnections_def getClientsIds_def getClientById_def
      close_socket_def finally_block_def removeClientById_def clearMessageQueue_def
      setSocket_def Let_def)

text \<open>
  C1, amended: when, in a sweep pass, closing the transport of a stale identity raises an
  error, the queue of that identity is still cleared, its record removed from the registry
  and the close callback called for it (the \<open>finally\<close> block runs); the records of the
  other ids are as they were. The error is then thrown on: the pass ends with it, and the
  ids after that identity in the snapshot are not visited in that pass.
\<close>

theorem sweep_close_failure_propagates:
  assumes "checkConnections_loop sw raises now pre w = (None, w1)"
    and "getClientById (realm w1) clientId = Some client"
    and "\<not> now - getLastPing (heap w1 client) < alive_timeout (sweeper_config sw)"
    and "getSocket (heap w1 client) = Some s"
    and "raises s = Some e"
  shows "checkConnections_loop sw raises now (pre @ clientId # ids) w =
           (Some e, finally_block sw clientId client w1)
       \<and> getClientById (realm (finally_block sw clientId client w1)) clientId = None
       \<and> map_of (messageQueues (realm (finally_block sw clientId client w1))) clientId = None
       \<and> getSocket (heap (finally_block sw clientId client w1) client) = None
       \<and> trace (finally_block sw clientId client w1) =
            trace w1 @ (case onClose sw of None \<Rightarrow> [] | Some cb \<Rightarrow> [Invoke cb client])
       \<and> (\<forall>j. j \<noteq> clientId \<longrightarrow>
            getClientById (realm (finally_block sw clientId client w1)) j
              = getClientById (realm w1) j)"
  using assms
  by (simp add: checkConnections_loop_append close_socket_def finally_block_realm
      finally_block_trace finally_block_heap getClientById_def AList.delete_conv')

theorem sweep_close_failure_propagates_witness:
  "checkConnections_loop example_sweeper example_raises 200000 [] example_sweep_world
     = (None, example_sweep_world)
   \<and> getClientById (realm example_sweep_world) ''a'' = Some 0
   \<and> \<not> 200000 - getLastPing (heap example_sweep_world 0)
         < alive_timeout (sweeper_config example_sweeper)
   \<and> getSocket (heap example_sweep_world 0) = Some (WebSocket 1)
   \<and> example_raises (WebSocket 1) = Some (ThrownError ''close failed'')
   \<and> checkConnections_loop example_sweeper example_raises 200000 [''a'', ''b''] example_sweep_world
       = (Some (ThrownError ''close failed''),
          finally_block example_sweeper ''a'' 0 example_sweep_world)
   \<and> getClientById (realm (finally_block example_sweeper ''a'' 0 example_sweep_world)) ''a'' = None
   \<and> getClientById (realm (finally_block example_sweeper ''a'' 0 example_sweep_world)) ''b''
       = Some 1
   \<and> trace (finally_block example_sweeper ''a'' 0 example_sweep_world)
       = [Invoke (AppEmit ''disconnect'') 0]"
proof -
  have hyps:
    "checkConnections_loop example_sweeper example_raises 200000 [] example_sweep_world
       = (None, example_sweep_world)"
    "getClientById (realm example_sweep_world) ''a'' = Some 0"
    "\<not> 200000 - getLastPing (heap example_sweep_world 0)
         < alive_timeout (sweeper_config example_sweeper)"
    "getSocket (heap example_sweep_world 0) = Some (WebSocket 1)"
    "example_raises (WebSocket 1) = Some (ThrownError ''close failed'')"
    by (simp_all add: example_defs getClientById_def)
  have b: "getClientById (realm example_sweep_world) ''b'' = Some 1"
    and t: "trace example_sweep_world = []"
    and c: "onClose example_sweeper = Some (AppEmit ''disconnect'')"
    by (simp_all add: example_defs getClientById_def)
  from sweep_close_failure_propagates [OF hyps, of "[''b'']"] b t c hyps
  show ?thesis by simp
qed



















section \<open>The number of registered identities\<close>

lemma length_update_le: "length (AList.update k v xs) \<le> Suc (length xs)"
  by (induction xs) auto

lemma length_update_new: "map_of xs k = None \<Longrightarrow> length (AList.update k v xs) = Suc (length xs)"
  by (induction xs) (auto split: if_splits)

lemma removeClientById_count:
  "length (getClientsIds (realm (removeClientById i w))) \<le> length (getClientsIds (realm w))"
  by (simp add: removeClientById_def getClientsIds_def setSocket_def Let_def AList.length_delete_le
      split: option.splits)

lemma disconnect_listener_count:
  "length (getClientsIds (realm (disconnect_listener s c w))) \<le> length (getClientsIds (realm w))"
  by (simp add: disconnect_listener_def emit_def removeClientById_count)

lemma socket_disconnect_count:
  "length (getClientsIds (realm (socket_disconnect s w))) \<le> length (getClientsIds (realm w))"
proof -
  have "length (getClientsIds (realm (fold (\<lambda>(s', c) w'. if s' = s then disconnect_listener s c w' else w') ls w)))
      \<le> length (getClientsIds (realm w))" for ls
  proof (induction ls arbitrary: w)
    case Nil
    then show ?case by simp
  next
    case (Cons p ls)
    obtain s' c where p: "p = (s', c)" by (cases p)
    show ?case
      using Cons.IH [of "disconnect_listener s c w"] Cons.IH [of w] disconnect_listener_count [of s c w]
      by (simp add: p)
  qed
  then show ?thesis by (simp add: socket_disconnect_def)
qed

lemma message_listener_realm: "realm (message_listener parse c data w) = realm w"
  by (simp add: message_listener_def emit_def split: sum.splits jsval.splits)

lemma socket_message_realm: "realm (socket_message parse s data w) = realm w"
proof -
  have "realm (fold (\<lambda>(s', c) w'. if s' = s then message_listener parse c data w' else w') ls w)
      = realm w" for ls
    by (induction ls arbitrary: w) (auto simp: message_listener_realm)
  then show ?thesis by (simp add: socket_message_def)
qed

lemma onSocketConnection_count:
  assumes "int (length (getClientsIds (realm w))) \<le> concurrent_limit cfg"
  shows "int (length (getClientsIds (realm (onSocketConnection cfg socket now w)))) \<le> concurrent_limit cfg"
proof -
  have "length (AList.update (socket_id socket) (next_client w) (clients (realm w)))
      \<le> Suc (length (clients (realm w)))"
    by (rule length_update_le)
  with assms show ?thesis
    by (auto simp: onSocketConnection_def registerClient_def configureSocket_def
        sendErrorAndClose_def setClient_def setSocket_def emit_def getClientsIds_def Let_def
        split: option.splits)
qed

lemma checkConnections_loop_count:
  "length (getClientsIds (realm (snd (checkConnections_loop sw raises now ids w))))
     \<le> length (getClientsIds (realm w))"
proof (induction ids arbitrary: w)
  case Nil
  then show ?case by simp
next
  case (Cons i ids)
  have fin: "length (getClientsIds (realm (finally_block sw i c w1))) \<le> length (getClientsIds (realm w1))"
    for c w1
    by (simp add: finally_block_realm getClientsIds_def AList.length_delete_le)
  have cs: "length (getClientsIds (realm (snd (close_socket raises so w))))
      \<le> length (getClientsIds (realm w))" for so
    using socket_disconnect_count [of _ "w\<lparr>trace := trace w @ [SocketDisconnect _]\<rparr>"]
    by (auto simp: close_socket_def socket_io_disconnect_def split: option.splits socket_ref.splits)
  show ?case
  proof (cases "getClientById (realm w) i")
    case None
    then show ?thesis using Cons.IH [of w] by simp
  next
    case (Some c)
    show ?thesis
    proof (cases "now - getLastPing (heap w c) < alive_timeout (sweeper_config sw)")
      case True
      with Some show ?thesis using Cons.IH [of w] by simp
    next
      case False
      obtain r w1 where c1: "close_socket raises (getSocket (heap w c)) w = (r, w1)"
        by (cases "close_socket raises (getSocket (heap w c)) w")
      with cs [of "getSocket (heap w c)"]
      have r1: "length (getClientsIds (realm w1)) \<le> length (getClientsIds (realm w))" by simp
      show ?thesis
      proof (cases r)
        case None
        with Some False c1 show ?thesis
          using Cons.IH [of "finally_block sw i c w1"] fin [of c w1] r1 by simp
      next
        case (Some e)
        with \<open>getClientById (realm w) i = Some c\<close> False c1 show ?thesis
          using fin [of c w1] r1 by simp
      qed
    qed
  qed
qed

lemma timeout_callback_count:
  assumes "timeout_callback raises now finished (sw, T, w) = (r, sw', T', w')"
  shows "length (getClientsIds (realm w')) \<le> length (getClientsIds (realm w))"
proof -
  have "w' = snd (checkConnections sw raises now w)"
    using assms by (auto simp: timeout_callback_def split: prod.splits option.splits)
  then show ?thesis
    by (simp add: checkConnections_def checkConnections_loop_count)
qed

lemma instance_step_config: "config (instance_step parse ev inst) = config inst"
  by (cases ev) (auto simp: instance_step_def split: option.splits prod.splits)

lemma instance_step_count:
  assumes "int (length (getClientsIds (realm (world inst)))) \<le> concurrent_limit (config inst)"
  shows "int (length (getClientsIds (realm (world (instance_step parse ev inst)))))
           \<le> concurrent_limit (config inst)"
proof (cases ev)
  case (Connects socket now)
  with assms show ?thesis
    by (simp add: instance_step_def onSocketConnection_count)
next
  case (Disconnects s)
  with assms socket_disconnect_count [of s "world inst"] show ?thesis
    by (simp add: instance_step_def)
next
  case (Delivers s data)
  with assms show ?thesis
    by (simp add: instance_step_def socket_message_realm)
next
  case (TimerFires h raises now finished)
  show ?thesis
  proof (cases "h \<in> fst ` set (pending (timers inst))")
    case False
    with assms TimerFires show ?thesis by (simp add: instance_step_def)
  next
    case True
    show ?thesis
    proof (cases "checkBrokenConnections inst")
      case None
      with assms TimerFires True show ?thesis by (simp add: instance_step_def)
    next
      case (Some sw)
      obtain r sw' T' w' where cb:
        "timeout_callback raises now finished (sw, clearTimeout h (timers inst), world inst)
           = (r, sw', T', w')"
        by (metis prod_cases4)
      from timeout_callback_count [OF cb] assms TimerFires True Some cb show ?thesis
        by (simp add: instance_step_def)
    qed
  qed
qed

lemma instance_run_config: "config (instance_run parse evs inst) = config inst"
  by (induction evs arbitrary: inst) (simp_all add: instance_step_config)

lemma instance_run_count:
  "int (length (getClientsIds (realm (world inst)))) \<le> concurrent_limit (config inst) \<Longrightarrow>
   int (length (getClientsIds (realm (world (instance_run parse evs inst)))))
     \<le> concurrent_limit (config inst)"
proof (induction evs arbitrary: inst)
  case Nil
  then show ?case by simp
next
  case (Cons ev evs)
  from Cons.IH [of "instance_step parse ev inst"] instance_step_count [OF Cons.prems]
  show ?case by (simp add: instance_step_config)
qed

lemma createInstance_world: "world (createInstance cfg t) = new_World"
  and createInstance_config: "config (createInstance cfg t) = cfg"
  by (simp_all add: createInstance_def start_def setTimeout_def Let_def split: prod.splits)

text \<open>
  C4: a handshake that passed the parameter and key checks and whose id has no record
  is registered exactly when the number of registered ids is below
  \<open>concurrent_limit\<close>: then a record with a fresh client object is created, OPEN is
  sent and the socket is attached; otherwise the socket gets the ERROR message with
  CONNECTION_LIMIT_EXCEED and is disconnected, and neither a record nor a client object
  is created. So a handshake never takes the number of registered ids above the limit,
  nor does any sequence of connections, disconnects, data frames and sweep passes; an
  instance that \<open>createInstance\<close> made with a limit that is not negative never has
  more registered ids than the limit.
\<close>

theorem registration_admission_limit:
  "(socket_id socket \<noteq> [] \<and> handshake_query socket ''token'' = Some token \<and> token \<noteq> []
      \<and> handshake_query socket ''key'' = Some (key cfg) \<and> key cfg \<noteq> []
      \<and> getClientById (realm w) (socket_id socket) = None \<longrightarrow>
      (if int (length (getClientsIds (realm w))) < concurrent_limit cfg
       then getClientById (realm (onSocketConnection cfg socket now w)) (socket_id socket)
              = Some (next_client w)
          \<and> heap (onSocketConnection cfg socket now w) (next_client w)
              = \<lparr>getId = socket_id socket, getToken = token,
                 getSocket = Some (Socket (socket_obj socket)), getLastPing = now\<rparr>
          \<and> length (getClientsIds (realm (onSocketConnection cfg socket now w)))
              = Suc (length (getClientsIds (realm w)))
          \<and> trace (onSocketConnection cfg socket now w)
              = trace w @ [SocketEmit (socket_obj socket) \<lparr>mtype = OPEN, msg = None\<rparr>,
                           Emitted (EvConnection (next_client w))]
       else trace (onSocketConnection cfg socket now w)
              = trace w @ [SocketEmit (socket_obj socket)
                             \<lparr>mtype = ERROR, msg = Some (ErrorText CONNECTION_LIMIT_EXCEED)\<rparr>,
                           SocketDisconnect (socket_obj socket)]
          \<and> realm (onSocketConnection cfg socket now w) = realm w
          \<and> heap (onSocketConnection cfg socket now w) = heap w
          \<and> next_client (onSocketConnection cfg socket now w) = next_client w))
   \<and> (int (length (getClientsIds (realm w))) \<le> concurrent_limit cfg \<longrightarrow>
        int (length (getClientsIds (realm (onSocketConnection cfg socket now w))))
          \<le> concurrent_limit cfg)
   \<and> (int (length (getClientsIds (realm (world inst)))) \<le> concurrent_limit (config inst) \<longrightarrow>
        int (length (getClientsIds (realm (world (instance_run parse evs inst)))))
          \<le> concurrent_limit (config inst))
   \<and> (0 \<le> concurrent_limit cfg \<longrightarrow>
        int (length (getClientsIds (realm (world (instance_run parse evs (createInstance cfg t))))))
          \<le> concurrent_limit cfg)"
proof -
  let ?w' = "onSocketConnection cfg socket now w"
  have a: "length (AList.update (socket_id socket) (next_client w) (clients (realm w)))
        = Suc (length (clients (realm w)))"
    if "getClientById (realm w) (socket_id socket) = None"
    using that by (simp add: getClientById_def length_update_new)
  have first:
    "if int (length (getClientsIds (realm w))) < concurrent_limit cfg
     then getClientById (realm ?w') (socket_id socket) = Some (next_client w)
        \<and> heap ?w' (next_client w)
            = \<lparr>getId = socket_id socket, getToken = token,
               getSocket = Some (Socket (socket_obj socket)), getLastPing = now\<rparr>
        \<and> length (getClientsIds (realm ?w')) = Suc (length (getClientsIds (realm w)))
        \<and> trace ?w'
            = trace w @ [SocketEmit (socket_obj socket) \<lparr>mtype = OPEN, msg = None\<rparr>,
                         Emitted (EvConnection (next_client w))]
     else trace ?w'
            = trace w @ [SocketEmit (socket_obj socket)
                           \<lparr>mtype = ERROR, msg = Some (ErrorText CONNECTION_LIMIT_EXCEED)\<rparr>,
                         SocketDisconnect (socket_obj socket)]
        \<and> realm ?w' = realm w \<and> heap ?w' = heap w \<and> next_client ?w' = next_client w"
    if "socket_id socket \<noteq> [] \<and> handshake_query socket ''token'' = Some token \<and> token \<noteq> []
      \<and> handshake_query socket ''key'' = Some (key cfg) \<and> key cfg \<noteq> []
      \<and> getClientById (realm w) (socket_id socket) = None"
    using that a
    by (auto simp: onSocketConnection_admitted registerClient_def configureSocket_def
        sendErrorAndClose_def setClient_def setSocket_def emit_def getClientsIds_def
        getClientById_def new_Client_def Let_def AList.update_conv')
  have last: "int (length (getClientsIds (realm (world (instance_run parse evs (createInstance cfg t))))))
          \<le> concurrent_limit cfg" if "0 \<le> concurrent_limit cfg"
    using instance_run_count [of "createInstance cfg t" parse evs] that
    by (simp add: createInstance_world createInstance_config new_World_def new_Realm_def
        getClientsIds_def)
  from first last onSocketConnection_count [of w cfg socket now]
    instance_run_count [of inst parse evs]
  show ?thesis by blast
qed

theorem registration_admission_limit_witness:
  "getClientById (realm example_world) ''bob'' = None
   \<and> \<not> int (length (getClientsIds (realm example_world))) < concurrent_limit example_config
   \<and> trace (onSocketConnection example_config (example_socket 2 ''bob'' ''t2'') 9 example_world)
       = [SocketEmit 2 \<lparr>mtype = ERROR, msg = Some (ErrorText CONNECTION_LIMIT_EXCEED)\<rparr>,
          SocketDisconnect 2]
   \<and> realm (onSocketConnection example_config (example_socket 2 ''bob'' ''t2'') 9 example_world)
       = realm example_world
   \<and> getClientById (realm new_World) ''alice'' = None
   \<and> int (length (getClientsIds (realm new_World))) < concurrent_limit example_config
   \<and> getClientById
        (realm (onSocketConnection example_config (example_socket 1 ''alice'' ''t1'') 5 new_World))
        ''alice'' = Some 0
   \<and> heap (onSocketConnection example_config (example_socket 1 ''alice'' ''t1'') 5 new_World) 0
       = \<lparr>getId = ''alice'', getToken = ''t1'', getSocket = Some (Socket 1), getLastPing = 5\<rparr>
   \<and> length (getClientsIds
        (realm (onSocketConnection example_config (example_socket 1 ''alice'' ''t1'') 5 new_World)))
       = 1
   \<and> 0 \<le> concurrent_limit example_config
   \<and> int (length (getClientsIds (realm (world
        (instance_run (\<lambda>s. Inl (SyntaxError s))
           [Connects (example_socket 1 ''alice'' ''t1'') 5,
            Connects (example_socket 2 ''bob'' ''t2'') 9]
           (createInstance example_config 0))))))
       \<le> 1"
proof -
  have hb: "socket_id (example_socket 2 ''bob'' ''t2'') \<noteq> []
      \<and> handshake_query (example_socket 2 ''bob'' ''t2'') ''token'' = Some ''t2'' \<and> ''t2'' \<noteq> []
      \<and> handshake_query (example_socket 2 ''bob'' ''t2'') ''key'' = Some (key example_config)
      \<and> key example_config \<noteq> []
      \<and> getClientById (realm example_world) (socket_id (example_socket 2 ''bob'' ''t2'')) = None"
    and full: "\<not> int (length (getClientsIds (realm example_world))) < concurrent_limit example_config"
    and tb: "trace example_world = []"
    by (simp_all add: example_defs getClientById_def getClientsIds_def)
  have ha: "socket_id (example_socket 1 ''alice'' ''t1'') \<noteq> []
      \<and> handshake_query (example_socket 1 ''alice'' ''t1'') ''token'' = Some ''t1'' \<and> ''t1'' \<noteq> []
      \<and> handshake_query (example_socket 1 ''alice'' ''t1'') ''key'' = Some (key example_config)
      \<and> key example_config \<noteq> []
      \<and> getClientById (realm new_World) (socket_id (example_socket 1 ''alice'' ''t1'')) = None"
    and room: "int (length (getClientsIds (realm new_World))) < concurrent_limit example_config"
    and lim: "0 \<le> concurrent_limit example_config" "concurrent_limit example_config = 1"
    and nw: "next_client new_World = 0" "length (getClientsIds (realm new_World)) = 0"
    by (simp_all add: example_defs getClientById_def getClientsIds_def new_World_def new_Realm_def)
  note th1 = registration_admission_limit
    [of "example_socket 2 ''bob'' ''t2''" "''t2''" example_config example_world 9]
  note th2 = registration_admission_limit
    [of "example_socket 1 ''alice'' ''t1''" "''t1''" example_config new_World 5 _
        "\<lambda>s. Inl (SyntaxError s)"
        "[Connects (example_socket 1 ''alice'' ''t1'') 5, Connects (example_socket 2 ''bob'' ''t2'') 9]"
        0]
  from th1 hb full tb have
    "trace (onSocketConnection example_config (example_socket 2 ''bob'' ''t2'') 9 example_world)
       = [SocketEmit 2 \<lparr>mtype = ERROR, msg = Some (ErrorText CONNECTION_LIMIT_EXCEED)\<rparr>,
          SocketDisconnect 2]"
    "realm (onSocketConnection example_config (example_socket 2 ''bob'' ''t2'') 9 example_world)
       = realm example_world"
    by (simp_all add: example_socket_def)
  moreover from th2 ha room nw have
    "getClientById
        (realm (onSocketConnection example_config (example_socket 1 ''alice'' ''t1'') 5 new_World))
        ''alice'' = Some 0"
    "heap (onSocketConnection example_config (example_socket 1 ''alice'' ''t1'') 5 new_World) 0
       = \<lparr>getId = ''alice'', getToken = ''t1'', getSocket = Some (Socket 1), getLastPing = 5\<rparr>"
    "length (getClientsIds
        (realm (onSocketConnection example_config (example_socket 1 ''alice'' ''t1'') 5 new_World)))
       = 1"
    by (simp_all add: example_socket_def)
  moreover from th2 lim have
    "int (length (getClientsIds (realm (world
        (instance_run (\<lambda>s. Inl (SyntaxError s))
           [Connects (example_socket 1 ''alice'' ''t1'') 5,
            Connects (example_socket 2 ''bob'' ''t2'') 9]
           (createInstance example_config 0)))))) \<le> 1"
    by simp
  ultimately show ?thesis
    using hb full ha room lim by (simp add: example_socket_def)
qed

section \<open>Timers and the construction of an instance\<close>

lemma start_result:
  "start now (sw, T) =
     (sw\<lparr>timeoutId := Some (next_handle T)\<rparr>,
      T\<lparr>pending := filter (\<lambda>(h, due). Some h \<noteq> timeoutId sw) (pending T)
                     @ [(next_handle T, now + checkInterval sw)],
        next_handle := Suc (next_handle T)\<rparr>)"
  by (cases "timeoutId sw") (auto simp: start_def setTimeout_def clearTimeout_def Let_def)

lemma stop_result:
  "stop (sw, T) =
     (sw\<lparr>timeoutId := None\<rparr>,
      T\<lparr>pending := filter (\<lambda>(h, due). Some h \<noteq> timeoutId sw) (pending T)\<rparr>)"
  by (cases "timeoutId sw") (auto simp: stop_def clearTimeout_def)

lemma timeout_callback_returns:
  assumes "fst (checkConnections sw raises now w) = None"
  shows "timeout_callback raises now finished (sw, T, w) =
     (None, sw\<lparr>timeoutId := Some (next_handle T)\<rparr>,
      T\<lparr>pending := pending T @ [(next_handle T, finished + checkInterval sw)],
        next_handle := Suc (next_handle T)\<rparr>,
      snd (checkConnections sw raises now w))"
  using assms
  by (cases "checkConnections sw raises now w") (simp add: timeout_callback_def start_result)

lemma timeout_callback_raises:
  assumes "fst (checkConnections sw raises now w) = Some e"
  shows "timeout_callback raises now finished (sw, T, w) =
     (Some e, sw, T, snd (checkConnections sw raises now w))"
  using assms
  by (cases "checkConnections sw raises now w") (simp add: timeout_callback_def)

lemma one_timer_step:
  assumes "one_timer inst"
  shows "one_timer (instance_step parse ev inst)"
proof (cases ev)
  case (TimerFires h raises now finished)
  show ?thesis
  proof (cases "h \<in> fst ` set (pending (timers inst))")
    case False
    with assms TimerFires show ?thesis by (simp add: instance_step_def)
  next
    case True
    with assms obtain sw where sw: "checkBrokenConnections inst = Some sw" "timeoutId sw = Some h"
      by (auto simp: one_timer_def)
    from assms sw have cleared: "pending (clearTimeout h (timers inst)) = []"
      by (auto simp: one_timer_def clearTimeout_def filter_empty_conv)
    show ?thesis
    proof (cases "fst (checkConnections sw raises now (world inst))")
      case None
      from timeout_callback_returns [OF None] TimerFires True sw cleared show ?thesis
        by (simp add: instance_step_def one_timer_def)
    next
      case (Some e)
      from timeout_callback_raises [OF Some] TimerFires True sw cleared show ?thesis
        by (simp add: instance_step_def one_timer_def)
    qed
  qed
next
  case (Connects socket now)
  with assms show ?thesis by (simp add: instance_step_def one_timer_def)
next
  case (Disconnects s)
  with assms show ?thesis by (simp add: instance_step_def one_timer_def)
next
  case (Delivers s data)
  with assms show ?thesis by (simp add: instance_step_def one_timer_def)
qed

lemma one_timer_run: "one_timer inst \<Longrightarrow> one_timer (instance_run parse evs inst)"
  by (induction evs arbitrary: inst) (simp_all add: one_timer_step)

lemma createInstance_result:
  "createInstance cfg t =
     (if server_type cfg \<noteq> ''socketio''
      then \<lparr>config = cfg, world = new_World,
            timers = \<lparr>pending = [(0, t + DEFAULT_CHECK_INTERVAL)], next_handle = 1\<rparr>,
            checkBrokenConnections =
              Some ((new_CheckBrokenConnections cfg None (Some (AppEmit ''disconnect'')))
                      \<lparr>timeoutId := Some 0\<rparr>),
            serverInstance = WebSocketServer, messagesExpire_started = True\<rparr>
      else \<lparr>config = cfg, world = new_World,
            timers = \<lparr>pending = [], next_handle = 0\<rparr>,
            checkBrokenConnections = None,
            serverInstance = SocketIOServer, messagesExpire_started = True\<rparr>)"
  by (simp add: createInstance_def start_result new_CheckBrokenConnections_def Let_def)

lemma one_timer_createInstance: "one_timer (createInstance cfg t)"
  by (simp add: createInstance_result one_timer_def)

lemma no_sweeper_step:
  assumes "checkBrokenConnections inst = None" and "pending (timers inst) = []"
  shows "checkBrokenConnections (instance_step parse ev inst) = None
    \<and> pending (timers (instance_step parse ev inst)) = []"
  using assms by (cases ev) (simp_all add: instance_step_def)

lemma no_sweeper_run:
  assumes "checkBrokenConnections inst = None" and "pending (timers inst) = []"
  shows "checkBrokenConnections (instance_run parse evs inst) = None
    \<and> pending (timers (instance_run parse evs inst)) = []"
  using assms
proof (induction evs arbitrary: inst)
  case Nil
  then show ?case by simp
next
  case (Cons ev evs)
  from no_sweeper_step [OF Cons.prems, of parse ev] Cons.IH [of "instance_step parse ev inst"]
  show ?case by simp
qed

text \<open>
  C3: with the server type \<open>socketio\<close>, \<open>createInstance\<close> constructs no sweeper
  and arms no timer, and this stays so whatever happens to the instance: a timer event
  does nothing, so no pass of the sweeper ever runs and no identity is evicted by one.
  With any other server type the sweeper is constructed, with the default interval and
  the callback that emits \<open>disconnect\<close>, and started: its timer is pending, one
  interval after the time of the call.
\<close>

theorem createInstance_sweeper:
  "(server_type cfg = ''socketio'' \<longrightarrow>
      checkBrokenConnections (createInstance cfg t) = None
      \<and> pending (timers (createInstance cfg t)) = []
      \<and> checkBrokenConnections (instance_run parse evs (createInstance cfg t)) = None
      \<and> pending (timers (instance_run parse evs (createInstance cfg t))) = []
      \<and> instance_step parse (TimerFires h raises now finished)
            (instance_run parse evs (createInstance cfg t))
          = instance_run parse evs (createInstance cfg t))
   \<and> (server_type cfg \<noteq> ''socketio'' \<longrightarrow>
      checkBrokenConnections (createInstance cfg t) =
        Some \<lparr>checkInterval = 300, timeoutId = Some 0, sweeper_config = cfg,
              onClose = Some (AppEmit ''disconnect'')\<rparr>
      \<and> pending (timers (createInstance cfg t)) = [(0, t + 300)])"
proof -
  have "checkBrokenConnections (instance_run parse evs (createInstance cfg t)) = None
      \<and> pending (timers (instance_run parse evs (createInstance cfg t))) = []"
    if "server_type cfg = ''socketio''"
    using that by (intro no_sweeper_run) (simp_all add: createInstance_result)
  then show ?thesis
    by (auto simp: createInstance_result instance_step_def new_CheckBrokenConnections_def
        DEFAULT_CHECK_INTERVAL_def)
qed

theorem createInstance_sweeper_witness:
  "server_type example_config = ''socketio''
   \<and> checkBrokenConnections (createInstance example_config 0) = None
   \<and> pending (timers (createInstance example_config 0)) = []
   \<and> checkBrokenConnections
        (instance_run (\<lambda>s. Inl (SyntaxError s))
           [Connects (example_socket 1 ''alice'' ''t1'') 5] (createInstance example_config 0))
       = None
   \<and> instance_step (\<lambda>s. Inl (SyntaxError s)) (TimerFires 0 (\<lambda>s. None) 100000 100001)
        (instance_run (\<lambda>s. Inl (SyntaxError s))
           [Connects (example_socket 1 ''alice'' ''t1'') 5] (createInstance example_config 0))
       = instance_run (\<lambda>s. Inl (SyntaxError s))
           [Connects (example_socket 1 ''alice'' ''t1'') 5] (createInstance example_config 0)
   \<and> server_type (example_config\<lparr>server_type := ''websocket''\<rparr>) \<noteq> ''socketio''
   \<and> checkBrokenConnections (createInstance (example_config\<lparr>server_type := ''websocket''\<rparr>) 0)
       = Some \<lparr>checkInterval = 300, timeoutId = Some 0,
               sweeper_config = example_config\<lparr>server_type := ''websocket''\<rparr>,
               onClose = Some (AppEmit ''disconnect'')\<rparr>
   \<and> pending (timers (createInstance (example_config\<lparr>server_type := ''websocket''\<rparr>) 0))
       = [(0, 300)]"
proof -
  have a: "server_type example_config = ''socketio''"
    and b: "server_type (example_config\<lparr>server_type := ''websocket''\<rparr>) \<noteq> ''socketio''"
    by (simp_all add: example_config_def)
  note th1 = createInstance_sweeper
    [of example_config 0 "\<lambda>s. Inl (SyntaxError s)"
        "[Connects (example_socket 1 ''alice'' ''t1'') 5]" 0 "\<lambda>s. None" 100000 100001]
  note th2 = createInstance_sweeper [of "example_config\<lparr>server_type := ''websocket''\<rparr>" 0]
  from th1 a have
    "checkBrokenConnections (createInstance example_config 0) = None"
    "pending (timers (createInstance example_config 0)) = []"
    "checkBrokenConnections
        (instance_run (\<lambda>s. Inl (SyntaxError s))
           [Connects (example_socket 1 ''alice'' ''t1'') 5] (createInstance example_config 0))
       = None"
    "instance_step (\<lambda>s. Inl (SyntaxError s)) (TimerFires 0 (\<lambda>s. None) 100000 100001)
        (instance_run (\<lambda>s. Inl (SyntaxError s))
           [Connects (example_socket 1 ''alice'' ''t1'') 5] (createInstance example_config 0))
       = instance_run (\<lambda>s. Inl (SyntaxError s))
           [Connects (example_socket 1 ''alice'' ''t1'') 5] (createInstance example_config 0)"
    by blast+
  moreover from th2 b have
    "checkBrokenConnections (createInstance (example_config\<lparr>server_type := ''websocket''\<rparr>) 0)
       = Some \<lparr>checkInterval = 300, timeoutId = Some 0,
               sweeper_config = example_config\<lparr>server_type := ''websocket''\<rparr>,
               onClose = Some (AppEmit ''disconnect'')\<rparr>"
    "pending (timers (createInstance (example_config\<lparr>server_type := ''websocket''\<rparr>) 0))
       = [(0, 300)]"
    by simp_all
  ultimately show ?thesis
    using a b by simp
qed

text \<open>
  C10: the default interval is 300. \<open>start\<close> cancels the timer whose handle the
  sweeper holds and arms one timer, due one interval after the call; \<open>stop\<close> cancels
  that timer and arms none. A timer fires once: it is removed before its callback runs,
  and the callback arms the next timer only when the pass has returned, due one interval
  after that moment and not after the beginning of the pass. When the pending timers are
  none but the one the sweeper holds, exactly one timer is pending after \<open>start\<close> and
  none after \<open>stop\<close>. In an instance that \<open>createInstance\<close> made, at most one
  timer is pending at any time, so a pass never begins while another is pending or
  running.
\<close>

theorem sweeper_scheduling:
  "DEFAULT_CHECK_INTERVAL = 300
   \<and> checkInterval (new_CheckBrokenConnections cfg None cb) = 300
   \<and> start now (sw, T) =
       (sw\<lparr>timeoutId := Some (next_handle T)\<rparr>,
        T\<lparr>pending := filter (\<lambda>(h, due). Some h \<noteq> timeoutId sw) (pending T)
                       @ [(next_handle T, now + checkInterval sw)],
          next_handle := Suc (next_handle T)\<rparr>)
   \<and> stop (sw, T) =
       (sw\<lparr>timeoutId := None\<rparr>,
        T\<lparr>pending := filter (\<lambda>(h, due). Some h \<noteq> timeoutId sw) (pending T)\<rparr>)
   \<and> (fst (checkConnections sw raises now w) = None \<longrightarrow>
        timeout_callback raises now finished (sw, T, w) =
          (None, sw\<lparr>timeoutId := Some (next_handle T)\<rparr>,
           T\<lparr>pending := pending T @ [(next_handle T, finished + checkInterval sw)],
             next_handle := Suc (next_handle T)\<rparr>,
           snd (checkConnections sw raises now w)))
   \<and> ((\<forall>h \<in> fst ` set (pending T). timeoutId sw = Some h) \<longrightarrow>
        pending (snd (start now (sw, T))) = [(next_handle T, now + checkInterval sw)]
        \<and> pending (snd (stop (sw, T))) = [])
   \<and> length (pending (timers (instance_run parse evs (createInstance cfg t)))) \<le> 1
   \<and> one_timer (instance_run parse evs (createInstance cfg t))"
proof -
  have f: "filter (\<lambda>(h, due). Some h \<noteq> timeoutId sw) (pending T) = []"
    if "\<forall>h \<in> fst ` set (pending T). timeoutId sw = Some h"
    using that by (auto simp: filter_empty_conv)
  have "one_timer (instance_run parse evs (createInstance cfg t))"
    by (intro one_timer_run one_timer_createInstance)
  moreover from this
  have "length (pending (timers (instance_run parse evs (createInstance cfg t)))) \<le> 1"
    by (simp add: one_timer_def)
  ultimately show ?thesis
    using timeout_callback_returns [of sw raises now w finished T] f
    by (simp add: start_result stop_result new_CheckBrokenConnections_def DEFAULT_CHECK_INTERVAL_def)
qed

theorem sweeper_scheduling_witness:
  "fst (checkConnections example_sweeper (\<lambda>s. None) 100000 example_sweep_world) = None
   \<and> timeout_callback (\<lambda>s. None) 100000 100007
        (example_sweeper\<lparr>timeoutId := Some 0\<rparr>, \<lparr>pending = [], next_handle = 1\<rparr>,
         example_sweep_world)
       = (None, example_sweeper\<lparr>timeoutId := Some 1\<rparr>,
          \<lparr>pending = [(1, 100307)], next_handle = 2\<rparr>,
          snd (checkConnections example_sweeper (\<lambda>s. None) 100000 example_sweep_world))
   \<and> fst ` set (pending \<lparr>pending = [(0, 300)], next_handle = 1\<rparr>) = {0}
   \<and> pending (snd (start 50
        (example_sweeper\<lparr>timeoutId := Some 0\<rparr>, \<lparr>pending = [(0, 300)], next_handle = 1\<rparr>)))
       = [(1, 350)]
   \<and> pending (snd (stop
        (example_sweeper\<lparr>timeoutId := Some 0\<rparr>, \<lparr>pending = [(0, 300)], next_handle = 1\<rparr>)))
       = []
   \<and> length (pending (timers
        (instance_run (\<lambda>s. Inl (SyntaxError s)) [TimerFires 0 (\<lambda>s. None) 300 301]
           (createInstance (example_config\<lparr>server_type := ''websocket''\<rparr>) 0)))) \<le> 1"
proof -
  let ?sw = "example_sweeper\<lparr>timeoutId := Some 0\<rparr>"
  have p: "fst (checkConnections ?sw (\<lambda>s. None) 100000 example_sweep_world) = None"
    and p': "fst (checkConnections example_sweeper (\<lambda>s. None) 100000 example_sweep_world) = None"
    and q: "checkConnections ?sw (\<lambda>s. None) 100000 example_sweep_world
        = checkConnections example_sweeper (\<lambda>s. None) 100000 example_sweep_world"
    by (simp_all add: example_defs checkConnections_def getClientsIds_def getClientById_def
        close_socket_def finally_block_def removeClientById_def clearMessageQueue_def
        setSocket_def Let_def)
  have i: "checkInterval ?sw = 300"
    by (simp add: example_defs DEFAULT_CHECK_INTERVAL_def)
  have h: "\<forall>h \<in> fst ` set (pending \<lparr>pending = [(0, 300)], next_handle = 1\<rparr>). timeoutId ?sw = Some h"
    by simp
  note th1 = sweeper_scheduling
    [where sw = ?sw and T = "\<lparr>pending = [], next_handle = 1\<rparr>" and raises = "\<lambda>s. None"
       and now = 100000 and w = example_sweep_world and finished = 100007
       and cfg = example_config and cb = None and parse = "\<lambda>s. Inl (SyntaxError s)"
       and evs = "[]" and t = 0]
  note th2 = sweeper_scheduling
    [where cfg = "example_config\<lparr>server_type := ''websocket''\<rparr>" and now = 50 and sw = ?sw
       and T = "\<lparr>pending = [(0, 300)], next_handle = 1\<rparr>"
       and parse = "\<lambda>s. Inl (SyntaxError s)" and evs = "[TimerFires 0 (\<lambda>s. None) 300 301]"
       and t = 0 and cb = None and raises = "\<lambda>s. None" and w = example_sweep_world
       and finished = 100007]
  from th1 have "fst (checkConnections ?sw (\<lambda>s. None) 100000 example_sweep_world) = None \<longrightarrow>
      timeout_callback (\<lambda>s. None) 100000 100007
        (?sw, \<lparr>pending = [], next_handle = 1\<rparr>, example_sweep_world)
       = (None, ?sw\<lparr>timeoutId := Some (next_handle \<lparr>pending = [], next_handle = 1\<rparr>)\<rparr>,
          \<lparr>pending = [], next_handle = 1\<rparr>
            \<lparr>pending := pending \<lparr>pending = [], next_handle = 1\<rparr>
               @ [(next_handle \<lparr>pending = [], next_handle = 1\<rparr>, 100007 + checkInterval ?sw)],
             next_handle := Suc (next_handle \<lparr>pending = [], next_handle = 1\<rparr>)\<rparr>,
          snd (checkConnections ?sw (\<lambda>s. None) 100000 example_sweep_world))"
    by blast
  with p have c1:
    "timeout_callback (\<lambda>s. None) 100000 100007
        (?sw, \<lparr>pending = [], next_handle = 1\<rparr>, example_sweep_world)
       = (None, example_sweeper\<lparr>timeoutId := Some 1\<rparr>,
          \<lparr>pending = [(1, 100307)], next_handle = 2\<rparr>,
          snd (checkConnections example_sweeper (\<lambda>s. None) 100000 example_sweep_world))"
    by (simp add: i q)
  from th2 have "(\<forall>h \<in> fst ` set (pending \<lparr>pending = [(0, 300)], next_handle = 1\<rparr>).
        timeoutId ?sw = Some h) \<longrightarrow>
      pending (snd (start 50 (?sw, \<lparr>pending = [(0, 300)], next_handle = 1\<rparr>)))
        = [(next_handle \<lparr>pending = [(0, 300)], next_handle = 1\<rparr>, 50 + checkInterval ?sw)]
      \<and> pending (snd (stop (?sw, \<lparr>pending = [(0, 300)], next_handle = 1\<rparr>))) = []"
    by blast
  with h have c2:
    "pending (snd (start 50 (?sw, \<lparr>pending = [(0, 300)], next_handle = 1\<rparr>))) = [(1, 350)]"
    "pending (snd (stop (?sw, \<lparr>pending = [(0, 300)], next_handle = 1\<rparr>))) = []"
    by (simp_all add: i)
  from th2 have c3: "length (pending (timers
        (instance_run (\<lambda>s. Inl (SyntaxError s)) [TimerFires 0 (\<lambda>s. None) 300 301]
           (createInstance (example_config\<lparr>server_type := ''websocket''\<rparr>) 0)))) \<le> 1"
    by blast
  show ?thesis
    using p' c1 c2 c3 by simp
qed

end
